theory Spec2Isabelle
  imports Complex_Main "HOL-Library.Word"
begin

section \<open>Data model (types.ts and the component state of App)\<close>

text \<open>
  \<^verbatim>\<open>export type AppState = 'idle' | 'capturing' | 'analyzing' | 'result' | 'error';\<close>
\<close>

datatype AppState = Idle | Capturing | Analyzing | Result | Error

text \<open>
  \<^verbatim>\<open>export interface WasteAnalysis { mainMaterial: string; confidences: {...};
    recyclingTip: string; isRecyclable: boolean; }\<close>
  The confidences object is kept as an association list in the object's own key order,
  which is the order \<^verbatim>\<open>Object.entries\<close> enumerates. A JavaScript number is modelled
  as a real; the values the rendering is checked on are small integers, which a double
  represents exactly.
\<close>

record WasteAnalysis =
  mainMaterial :: string
  confidences :: "(string \<times> real) list"
  recyclingTip :: string
  isRecyclable :: bool

text \<open>
  The browser objects the component holds references to. A \<^verbatim>\<open>MediaStream\<close> is the
  list of its tracks (\<^verbatim>\<open>getTracks()\<close>), each track an identity; whether a track has
  been stopped is kept in the store \<open>ended\<close> of the component state below, since the
  stream outlives the element it is attached to.
\<close>

type_synonym MediaStreamTrack = nat
type_synonym MediaStream = "MediaStreamTrack list"
type_synonym pixels = "nat list"

record HTMLVideoElement =
  srcObject :: "MediaStream option"
  videoWidth :: nat
  videoHeight :: nat
  currentFrame :: "pixels option"

record HTMLCanvasElement =
  width :: nat
  height :: nat
  bitmap :: pixels
  context2d :: bool

text \<open>
  The state of one mounted \<^verbatim>\<open>App\<close>: the four \<^verbatim>\<open>useState\<close> cells, the two element
  refs the handlers read, the store of stopped tracks, and the log of the strings
  \<^verbatim>\<open>analyzeWaste\<close> has been called with (the component's one outbound effect).
  The type parameter is the value \<^verbatim>\<open>analyzeWaste\<close> resolved with: the source types it
  \<^verbatim>\<open>WasteAnalysis\<close>, at run time it is whatever \<^verbatim>\<open>JSON.parse\<close> returned; the
  controller never inspects it.
\<close>

record 'a App =
  state :: AppState
  image' :: "string option"
  analysis :: "'a option"
  error :: "string option"
  videoRef :: "HTMLVideoElement option"
  canvasRef :: "HTMLCanvasElement option"
  ended :: "MediaStreamTrack set"
  requests :: "string list"

definition setState :: "AppState \<Rightarrow> 'a App \<Rightarrow> 'a App" where
  "setState v s = s\<lparr>state := v\<rparr>"

definition setImage :: "string option \<Rightarrow> 'a App \<Rightarrow> 'a App" where
  "setImage v s = s\<lparr>image' := v\<rparr>"

definition setAnalysis :: "'a option \<Rightarrow> 'a App \<Rightarrow> 'a App" where
  "setAnalysis v s = s\<lparr>analysis := v\<rparr>"

definition setError :: "string option \<Rightarrow> 'a App \<Rightarrow> 'a App" where
  "setError v s = s\<lparr>error := v\<rparr>"

text \<open>
  React's commit after a batch of state updates, as far as the handlers can observe it:
  \<^verbatim>\<open>{state === 'capturing' && (... <video ref={videoRef} .../> ...)}\<close> mounts a fresh
  video element (no stream, no frame) when the state is capturing and unmounts it
  otherwise; \<^verbatim>\<open><canvas ref={canvasRef} className="hidden" />\<close> is always mounted
  (a new canvas is 300 by 150 and transparent).
\<close>

definition newVideo :: HTMLVideoElement where
  "newVideo = \<lparr>srcObject = None, videoWidth = 0, videoHeight = 0, currentFrame = None\<rparr>"

definition blank :: "nat \<Rightarrow> nat \<Rightarrow> pixels" where
  "blank w h = replicate (4 * w * h) 0"

definition newCanvas :: HTMLCanvasElement where
  "newCanvas = \<lparr>width = 300, height = 150, bitmap = blank 300 150, context2d = True\<rparr>"

definition commit :: "'a App \<Rightarrow> 'a App" where
  "commit s = s\<lparr>
     videoRef := (if state s = Capturing
                  then (case videoRef s of None \<Rightarrow> Some newVideo | Some v \<Rightarrow> Some v)
                  else None),
     canvasRef := (case canvasRef s of None \<Rightarrow> Some newCanvas | Some c \<Rightarrow> Some c)\<rparr>"

section \<open>Media capture (App, lines 44 to 49 and 99 to 105)\<close>

text \<open>
  \<^verbatim>\<open>
  const stopCamera = () => {
    if (videoRef.current && videoRef.current.srcObject) {
      const stream = videoRef.current.srcObject as MediaStream;
      stream.getTracks().forEach(track => track.stop());
    }
  };
  \<close>
  \<^verbatim>\<open>track.stop()\<close> ends the track; it never throws.
\<close>

definition stopCamera :: "'a App \<Rightarrow> 'a App" where
  "stopCamera s =
     (case videoRef s of
        None \<Rightarrow> s
      | Some video \<Rightarrow>
          (case srcObject video of
             None \<Rightarrow> s
           | Some stream \<Rightarrow> s\<lparr>ended := ended s \<union> set stream\<rparr>))"

text \<open>
  \<^verbatim>\<open>
  const reset = () => {
    stopCamera(); setImage(null); setAnalysis(null); setError(null); setState('idle');
  };
  \<close>
  A handler is modelled by its run: the list of the component states after each of its
  statements, ending with the commit of the batched updates.
\<close>

definition reset :: "'a App \<Rightarrow> 'a App list" where
  "reset s0 =
     (let s1 = stopCamera s0;
          s2 = setImage None s1;
          s3 = setAnalysis None s2;
          s4 = setError None s3;
          s5 = setState Idle s4
      in [s1, s2, s3, s4, s5, commit s5])"

text \<open>The state a run ends in; a run with no step leaves the state as it was.\<close>

definition final :: "'a App \<Rightarrow> 'a App list \<Rightarrow> 'a App" where
  "final s0 run = last (s0 # run)"

text \<open>
  A stream is attached to the viewfinder; the capturing state with a stream attached
  (its video-active substate); and a stream is attached that still has a live track.
\<close>

definition streamAttached :: "'a App \<Rightarrow> bool" where
  "streamAttached s =
     (case videoRef s of None \<Rightarrow> False | Some video \<Rightarrow> srcObject video \<noteq> None)"

definition videoActive :: "'a App \<Rightarrow> bool" where
  "videoActive s = (state s = Capturing \<and> streamAttached s)"

definition streamActive :: "'a App \<Rightarrow> bool" where
  "streamActive s =
     (case videoRef s of
        None \<Rightarrow> False
      | Some video \<Rightarrow>
          (case srcObject video of
             None \<Rightarrow> False
           | Some stream \<Rightarrow> \<not> set stream \<subseteq> ended s))"

section \<open>Platform functions the handlers call\<close>

text \<open>
  \<^verbatim>\<open>String.prototype.split(',')\<close>: the pieces between the separators, in order; a
  string without the separator is the single piece. \<^verbatim>\<open>array[i]\<close> is
  \<^verbatim>\<open>undefined\<close> (here \<open>None\<close>) beyond the end of the array.
\<close>

fun split :: "char \<Rightarrow> string \<Rightarrow> string list" where
  "split sep [] = [[]]"
| "split sep (c # cs) =
     (if c = sep then [] # split sep cs
      else (case split sep cs of
              [] \<Rightarrow> [[c]]
            | piece # pieces \<Rightarrow> (c # piece) # pieces))"

definition index :: "'b list \<Rightarrow> nat \<Rightarrow> 'b option" where
  "index xs i = (if i < length xs then Some (xs ! i) else None)"

text \<open>
  Base64 (RFC 4648, with padding), the encoding of the body of the data URLs that
  \<^verbatim>\<open>FileReader.readAsDataURL\<close> and \<^verbatim>\<open>canvas.toDataURL\<close> produce: three bytes
  become four characters of the alphabet, six bits each.
\<close>

definition alphabet :: string where
  "alphabet = ''ABCDEFGHIJKLMNOPQRSTUVWXYZabcdefghijklmnopqrstuvwxyz0123456789+/''"

definition sextet :: "nat \<Rightarrow> char" where
  "sextet n = alphabet ! (n mod 64)"

fun base64_encode :: "8 word list \<Rightarrow> string" where
  "base64_encode (a # b # c # rest) =
     (let n = unat a * 65536 + unat b * 256 + unat c
      in [sextet (n div 262144), sextet (n div 4096), sextet (n div 64), sextet n])
     @ base64_encode rest"
| "base64_encode [a, b] =
     (let n = unat a * 65536 + unat b * 256
      in [sextet (n div 262144), sextet (n div 4096), sextet (n div 64), CHR ''=''])"
| "base64_encode [a] =
     (let n = unat a * 65536
      in [sextet (n div 262144), sextet (n div 4096), CHR ''='', CHR ''=''])"
| "base64_encode [] = []"

text \<open>
  The decoding that undoes it: four characters give back three bytes, fewer before
  padding. It serves to state that a Base64 body determines the bytes it encodes.
\<close>

fun position :: "char \<Rightarrow> string \<Rightarrow> nat" where
  "position c [] = 0"
| "position c (x # xs) = (if c = x then 0 else Suc (position c xs))"

definition sextet_value :: "char \<Rightarrow> nat" where
  "sextet_value c = (if c = CHR ''='' then 0 else position c alphabet)"

definition sextets :: "char \<Rightarrow> char \<Rightarrow> char \<Rightarrow> char \<Rightarrow> nat" where
  "sextets c1 c2 c3 c4 =
     ((sextet_value c1 * 64 + sextet_value c2) * 64 + sextet_value c3) * 64 + sextet_value c4"

fun base64_decode :: "string \<Rightarrow> 8 word list" where
  "base64_decode (c1 # c2 # c3 # c4 # rest) =
     (let n = sextets c1 c2 c3 c4
      in if c3 = CHR ''='' then [of_nat (n div 65536)]
         else if c4 = CHR ''='' then [of_nat (n div 65536), of_nat (n div 256 mod 256)]
         else [of_nat (n div 65536), of_nat (n div 256 mod 256), of_nat (n mod 256)]
              @ base64_decode rest)"
| "base64_decode cs = []"

text \<open>
  A user-selected file: its \<^verbatim>\<open>type\<close>, its bytes, and whether they can still be read
  when the reader gets to them (a file deleted, locked or on a medium removed since the
  selection cannot). \<^verbatim>\<open>reader.readAsDataURL(file)\<close> ends with \<^verbatim>\<open>onloadend\<close> either
  way; \<^verbatim>\<open>reader.result\<close> is then the data URL of the bytes under the file's media
  type (\<^verbatim>\<open>application/octet-stream\<close> for a file without one), or null when the read
  failed.
\<close>

record File =
  fileType :: string
  contents :: "8 word list"
  readable :: bool

definition mediaType :: "File \<Rightarrow> string" where
  "mediaType file = (if fileType file = [] then ''application/octet-stream'' else fileType file)"

definition dataURL :: "File \<Rightarrow> string" where
  "dataURL file = ''data:'' @ mediaType file @ '';base64,'' @ base64_encode (contents file)"

definition readAsDataURL :: "File \<Rightarrow> string option" where
  "readAsDataURL file = (if readable file then Some (dataURL file) else None)"

text \<open>
  The canvas operations of \<^verbatim>\<open>capturePhoto\<close>. Assigning \<^verbatim>\<open>canvas.width\<close> or
  \<^verbatim>\<open>canvas.height\<close> clears the bitmap. \<^verbatim>\<open>drawImage(video, 0, 0, w, h)\<close> paints the
  video's current frame over the rectangle given; it paints nothing while the video has
  no frame yet. \<^verbatim>\<open>toDataURL(type, quality)\<close> of a canvas without pixels is
  \<^verbatim>\<open>data:,\<close>; otherwise it is the data URL of the encoded bitmap, the encoder being
  the browser's (a parameter here: width, height, pixels and quality to bytes).
\<close>

type_synonym encoder = "nat \<Rightarrow> nat \<Rightarrow> pixels \<Rightarrow> real \<Rightarrow> 8 word list"

definition setWidth :: "nat \<Rightarrow> HTMLCanvasElement \<Rightarrow> HTMLCanvasElement" where
  "setWidth w c = c\<lparr>width := w, bitmap := blank w (height c)\<rparr>"

definition setHeight :: "nat \<Rightarrow> HTMLCanvasElement \<Rightarrow> HTMLCanvasElement" where
  "setHeight h c = c\<lparr>height := h, bitmap := blank (width c) h\<rparr>"

definition drawImage :: "HTMLVideoElement \<Rightarrow> nat \<Rightarrow> nat \<Rightarrow> HTMLCanvasElement \<Rightarrow> HTMLCanvasElement" where
  \<comment> \<open>only ever called with the rectangle \<open>w\<close> by \<open>h\<close> equal to the whole canvas and to the
      frame's natural size, so that the frame is copied without scaling or clipping\<close>
  "drawImage video w h c =
     (case currentFrame video of
        None \<Rightarrow> c
      | Some frame \<Rightarrow> c\<lparr>bitmap := frame\<rparr>)"

definition toDataURL :: "encoder \<Rightarrow> string \<Rightarrow> real \<Rightarrow> HTMLCanvasElement \<Rightarrow> string" where
  "toDataURL encode type quality c =
     (if width c = 0 \<or> height c = 0 then ''data:,''
      else ''data:'' @ type @ '';base64,''
           @ base64_encode (encode (width c) (height c) (bitmap c) quality))"

section \<open>Classification client (services/geminiService)\<close>

text \<open>
  What \<^verbatim>\<open>JSON.parse\<close> returns: any JSON value, an object being its entries in
  enumeration order.
\<close>

datatype json =
    JNull
  | JBool bool
  | JNumber real
  | JString string
  | JArray "json list"
  | JObject "(string \<times> json) list"

text \<open>What the client can throw or reject with.\<close>

datatype thrown =
    Rejected string \<comment> \<open>whatever \<^verbatim>\<open>ai.models.generateContent\<close> rejected with\<close>
  | JsError string \<comment> \<open>\<^verbatim>\<open>new Error(message)\<close>\<close>
  | SyntaxError \<comment> \<open>thrown by \<^verbatim>\<open>JSON.parse\<close>\<close>
  | TypeError \<comment> \<open>thrown by a property access on \<^verbatim>\<open>null\<close>\<close>

text \<open>
  The request \<^verbatim>\<open>analyzeWaste\<close> builds (lines 47 to 66): the model, the prompt part, the
  inline image part and the response MIME type; the response schema sent along is a
  constant and plays no part in what the client itself does with the response.
  \<^verbatim>\<open>data: base64Image.split(',')[1]\<close> is the second piece of the argument, undefined
  when the argument has no comma.
\<close>

record GenerateContentParameters =
  model :: string
  promptText :: string
  mimeType :: string
  data :: "string option"
  responseMimeType :: string

definition prompt :: string where
  "prompt =
     ''Analyze this image of waste and identify the primary material. '' @ [CHR 0x0A] @
     ''  Determine if it is glass, plastic, paper, or cardboard. '' @ [CHR 0x0A] @
     ''  Provide a percentage confidence for each category (summing to 1 or 100).'' @ [CHR 0x0A] @
     ''  Also provide a short, helpful recycling tip for this specific item.''"

definition request :: "string \<Rightarrow> GenerateContentParameters" where
  "request base64Image =
     \<lparr>model = ''gemini-3-flash-preview'',
      promptText = prompt,
      mimeType = ''image/jpeg'',
      data = index (split CHR '','' base64Image) 1,
      responseMimeType = ''application/json''\<rparr>"

text \<open>
  \<^verbatim>\<open>
  try {
    const result = await ai.models.generateContent({...});
    const text = result.text;
    if (!text) throw new Error("No response text from AI");
    return JSON.parse(text) as WasteAnalysis;
  } catch (error) { console.error("Gemini Analysis Error:", error); throw error; }
  \<close>
  The service call and \<^verbatim>\<open>JSON.parse\<close> are the environment's: the first answers a
  request by rejecting or by a response whose \<^verbatim>\<open>text\<close> is a string or undefined, the
  second maps a text to the value it denotes or throws. The cast \<^verbatim>\<open>as WasteAnalysis\<close>
  does nothing at run time.
\<close>

definition analyzeWaste ::
  "(GenerateContentParameters \<Rightarrow> thrown + string option) \<Rightarrow> (string \<Rightarrow> thrown + json)
     \<Rightarrow> string \<Rightarrow> thrown + json" where
  "analyzeWaste generateContent JSON_parse base64Image =
     (case generateContent (request base64Image) of
        Inl err \<Rightarrow> Inl err
      | Inr response \<Rightarrow>
          (case response of
             None \<Rightarrow> Inl (JsError ''No response text from AI'')
           | Some txt \<Rightarrow>
               if txt = [] then Inl (JsError ''No response text from AI'')
               else (case JSON_parse txt of
                       Inl err \<Rightarrow> Inl err
                     | Inr v \<Rightarrow> Inr v)))"

text \<open>
  The shape \<^verbatim>\<open>interface WasteAnalysis\<close> of types.ts declares, read off a JSON value:
  an object with a string \<open>mainMaterial\<close>, an object \<open>confidences\<close> with the five numeric
  keys, a string \<open>recyclingTip\<close> and a boolean \<open>isRecyclable\<close>.
\<close>

definition hasString :: "(string \<times> json) list \<Rightarrow> string \<Rightarrow> bool" where
  "hasString obj k = (case map_of obj k of Some (JString _) \<Rightarrow> True | _ \<Rightarrow> False)"

definition hasNumber :: "(string \<times> json) list \<Rightarrow> string \<Rightarrow> bool" where
  "hasNumber obj k = (case map_of obj k of Some (JNumber _) \<Rightarrow> True | _ \<Rightarrow> False)"

definition hasBoolean :: "(string \<times> json) list \<Rightarrow> string \<Rightarrow> bool" where
  "hasBoolean obj k = (case map_of obj k of Some (JBool _) \<Rightarrow> True | _ \<Rightarrow> False)"

definition isConfidences :: "json \<Rightarrow> bool" where
  "isConfidences v =
     (case v of
        JObject obj \<Rightarrow> hasNumber obj ''glass'' \<and> hasNumber obj ''plastic''
                     \<and> hasNumber obj ''paper'' \<and> hasNumber obj ''cardboard''
                     \<and> hasNumber obj ''other''
      | _ \<Rightarrow> False)"

definition isWasteAnalysis :: "json \<Rightarrow> bool" where
  "isWasteAnalysis v =
     (case v of
        JObject obj \<Rightarrow> hasString obj ''mainMaterial''
                     \<and> (case map_of obj ''confidences'' of
                           Some c \<Rightarrow> isConfidences c | None \<Rightarrow> False)
                     \<and> hasString obj ''recyclingTip'' \<and> hasBoolean obj ''isRecyclable''
      | _ \<Rightarrow> False)"

section \<open>View state controller (App, lines 28 to 42 and 51 to 97)\<close>

text \<open>
  \<^verbatim>\<open>
  const processAnalysis = async (base64: string) => {
    setState('analyzing'); setError(null);
    try { const result = await analyzeWaste(base64); setAnalysis(result); setState('result'); }
    catch (err) { setError("AI analysis failed. Please try a different photo."); setState('error'); }
  };
  \<close>
  The parameter \<open>analyze\<close> is the classification client as the controller sees it: what
  awaiting its call on the argument gives. The call is logged in \<open>requests\<close>; the
  \<^verbatim>\<open>await\<close> returns to the event loop, where React commits.
\<close>

definition settled :: "thrown + 'a \<Rightarrow> 'a App \<Rightarrow> 'a App list" where
  \<comment> \<open>the continuation after the \<^verbatim>\<open>await\<close>: the rest of the \<^verbatim>\<open>try\<close> block or the \<^verbatim>\<open>catch\<close> block\<close>
  "settled outcome s4 =
     (case outcome of
        Inr result \<Rightarrow>
          (let s5 = setAnalysis (Some result) s4;
               s6 = setState Result s5
           in [s5, s6, commit s6])
      | Inl err \<Rightarrow>
          (let s5 = setError (Some ''AI analysis failed. Please try a different photo.'') s4;
               s6 = setState Error s5
           in [s5, s6, commit s6]))"

definition processAnalysis :: "(string \<Rightarrow> thrown + 'a) \<Rightarrow> string \<Rightarrow> 'a App \<Rightarrow> 'a App list" where
  "processAnalysis analyze base64 s0 =
     (let s1 = setState Analyzing s0;
          s2 = setError None s1;
          s3 = s2\<lparr>requests := requests s2 @ [base64]\<rparr>;
          s4 = commit s3
      in [s1, s2, s3, s4] @ settled (analyze base64) s4)"

text \<open>
  \<^verbatim>\<open>processAnalysis(null)\<close>, which a cast to string lets through: the same statements,
  where \<^verbatim>\<open>analyzeWaste(null)\<close> throws a TypeError at \<^verbatim>\<open>base64Image.split\<close> inside its
  \<^verbatim>\<open>try\<close>, before any request exists, and rethrows it; nothing is sent.
\<close>

definition processAnalysis_null :: "'a App \<Rightarrow> 'a App list" where
  "processAnalysis_null s0 =
     (let s1 = setState Analyzing s0;
          s2 = setError None s1;
          s4 = commit s2
      in [s1, s2, s4] @ settled (Inl TypeError) s4)"

text \<open>
  \<^verbatim>\<open>
  const startCamera = async () => {
    try {
      setState('capturing');
      const stream = await navigator.mediaDevices.getUserMedia({ video: {...} });
      if (videoRef.current) { videoRef.current.srcObject = stream; }
    } catch (err) {
      console.error("Camera error:", err);
      setError("Unable to access camera. Please check permissions.");
      setState('error');
    }
  };
  \<close>
\<close>

datatype DOMException = NotAllowedError | NotFoundError | OtherError string

record MediaTrackConstraints =
  facingMode :: string
  idealWidth :: nat
  idealHeight :: nat

definition videoConstraints :: MediaTrackConstraints where
  "videoConstraints = \<lparr>facingMode = ''environment'', idealWidth = 1280, idealHeight = 720\<rparr>"

definition startCamera ::
  "(MediaTrackConstraints \<Rightarrow> DOMException + MediaStream) \<Rightarrow> 'a App \<Rightarrow> 'a App list" where
  "startCamera getUserMedia s0 =
     (let s1 = setState Capturing s0;
          s2 = commit s1
      in [s1, s2] @
         (case getUserMedia videoConstraints of
            Inr stream \<Rightarrow>
              (case videoRef s2 of
                 None \<Rightarrow> []
               | Some video \<Rightarrow> [s2\<lparr>videoRef := Some (video\<lparr>srcObject := Some stream\<rparr>)\<rparr>])
          | Inl err \<Rightarrow>
              (let s3 = setError (Some ''Unable to access camera. Please check permissions.'') s2;
                   s4 = setState Error s3
               in [s3, s4, commit s4])))"

text \<open>
  \<^verbatim>\<open>
  const capturePhoto = () => {
    if (videoRef.current && canvasRef.current) {
      const video = videoRef.current; const canvas = canvasRef.current;
      const vWidth = video.videoWidth; const vHeight = video.videoHeight;
      canvas.width = vWidth; canvas.height = vHeight;
      const ctx = canvas.getContext('2d');
      if (ctx) {
        ctx.drawImage(video, 0, 0, vWidth, vHeight);
        const dataUrl = canvas.toDataURL('image/jpeg', 0.85);
        setImage(dataUrl); stopCamera(); processAnalysis(dataUrl);
      }
    }
  };
  \<close>
\<close>

definition capturePhoto :: "encoder \<Rightarrow> (string \<Rightarrow> thrown + 'a) \<Rightarrow> 'a App \<Rightarrow> 'a App list" where
  "capturePhoto encode analyze s0 =
     (case videoRef s0 of
        None \<Rightarrow> []
      | Some video \<Rightarrow>
          (case canvasRef s0 of
             None \<Rightarrow> []
           | Some canvas \<Rightarrow>
               (let vWidth = videoWidth video;
                    vHeight = videoHeight video;
                    canvas1 = setHeight vHeight (setWidth vWidth canvas);
                    s1 = s0\<lparr>canvasRef := Some canvas1\<rparr>
                in if context2d canvas1 then
                     (let canvas2 = drawImage video vWidth vHeight canvas1;
                          s2 = s1\<lparr>canvasRef := Some canvas2\<rparr>;
                          dataUrl = toDataURL encode ''image/jpeg'' (85 / 100) canvas2;
                          s3 = setImage (Some dataUrl) s2;
                          s4 = stopCamera s3
                      in [s1, s2, s3, s4] @ processAnalysis analyze dataUrl s4)
                   else [s1])))"

text \<open>
  \<^verbatim>\<open>
  const handleFileUpload = (e: React.ChangeEvent<HTMLInputElement>) => {
    const file = e.target.files?.[0];
    if (file) {
      const reader = new FileReader();
      reader.onloadend = () => {
        const dataUrl = reader.result as string;
        setImage(dataUrl); processAnalysis(dataUrl);
      };
      reader.readAsDataURL(file);
    }
  };
  \<close>
  The argument is \<^verbatim>\<open>e.target.files\<close>, a list of files or null. The handler is
  \<^verbatim>\<open>onloadend\<close>, which fires after a failed read as well as after a completed one, and
  the cast \<^verbatim>\<open>reader.result as string\<close> does nothing at run time: after a failed read
  \<^verbatim>\<open>dataUrl\<close> is null.
\<close>

definition handleFileUpload ::
  "(string \<Rightarrow> thrown + 'a) \<Rightarrow> File list option \<Rightarrow> 'a App \<Rightarrow> 'a App list" where
  "handleFileUpload analyze files s0 =
     (case (case files of None \<Rightarrow> None | Some fs \<Rightarrow> index fs 0) of
        None \<Rightarrow> []
      | Some file \<Rightarrow>
          (case readAsDataURL file of
             Some dataUrl \<Rightarrow>
               (let s1 = setImage (Some dataUrl) s0
                in s1 # processAnalysis analyze dataUrl s1)
           | None \<Rightarrow>
               (let s1 = setImage None s0
                in s1 # processAnalysis_null s1)))"

section \<open>Presentation (App, lines 124 to 285)\<close>

text \<open>
  \<^verbatim>\<open>Math.round\<close> rounds to the nearest integer, a half upwards;
  \<^verbatim>\<open>toLowerCase\<close> is given on ASCII letters, the only ones the material names use.
  A string or null used as a condition is true when it is a non-empty string.
\<close>

definition Math_round :: "real \<Rightarrow> int" where
  "Math_round x = \<lfloor>x + 1 / 2\<rfloor>"

definition lowerOf :: "char \<Rightarrow> char" where
  "lowerOf c =
     (case map_of (zip ''ABCDEFGHIJKLMNOPQRSTUVWXYZ'' ''abcdefghijklmnopqrstuvwxyz'') c of
        Some l \<Rightarrow> l
      | None \<Rightarrow> c)"

definition toLowerCase :: "string \<Rightarrow> string" where
  "toLowerCase s = map lowerOf s"

definition truthy :: "string option \<Rightarrow> bool" where
  "truthy v = (case v of None \<Rightarrow> False | Some u \<Rightarrow> u \<noteq> [])"

text \<open>
  One row of the confidence list, \<^verbatim>\<open>Object.entries(analysis.confidences).map(([key, value]) => ...)\<close>:
  the label \<^verbatim>\<open>{key}\<close> with its class, the number \<^verbatim>\<open>{Math.round(value)}\<close> shown before the
  percent sign, and the bar with the class chosen for it and its width \<^verbatim>\<open>${value}%\<close>.
  Label and bar test the same condition,
  \<^verbatim>\<open>key.toLowerCase() === analysis.mainMaterial.toLowerCase()\<close>.
\<close>

record Bar =
  label :: string
  labelClass :: string
  percent :: int
  fillClass :: string
  fillWidth :: real

definition highlighted :: string where
  "highlighted =
     ''bg-gradient-to-r from-emerald-400 to-emerald-600 shadow-[0_0_10px_rgba(16,185,129,0.3)]''"

definition renderBar :: "WasteAnalysis \<Rightarrow> string \<times> real \<Rightarrow> Bar" where
  "renderBar a entry =
     (case entry of (key, v) \<Rightarrow>
        \<lparr>label = key,
         labelClass = (if toLowerCase key = toLowerCase (mainMaterial a)
                       then ''text-emerald-600'' else []),
         percent = Math_round v,
         fillClass = (if toLowerCase key = toLowerCase (mainMaterial a)
                      then highlighted else ''bg-slate-200''),
         fillWidth = v\<rparr>)"

text \<open>
  The result card (lines 209 to 265): the recyclable badge and icon, the primary
  detection \<^verbatim>\<open>{analysis.mainMaterial}\<close>, the confidence rows and the advice
  \<^verbatim>\<open>{analysis.recyclingTip}\<close>.
\<close>

datatype Icon = CheckIcon | XIcon

record ResultCard =
  badgeClass :: string
  icon :: Icon
  primaryDetection :: string
  bars :: "Bar list"
  recyclingAdvice :: string

definition renderResult :: "WasteAnalysis \<Rightarrow> ResultCard" where
  "renderResult a =
     \<lparr>badgeClass = (if isRecyclable a then ''bg-emerald-100 text-emerald-600''
                    else ''bg-rose-100 text-rose-600''),
      icon = (if isRecyclable a then CheckIcon else XIcon),
      primaryDetection = mainMaterial a,
      bars = map (renderBar a) (confidences a),
      recyclingAdvice = recyclingTip a\<rparr>"

text \<open>
  What \<^verbatim>\<open>App\<close> returns for \<^verbatim>\<open><main>\<close>: the idle screen, the viewfinder, and the panel
  \<^verbatim>\<open>(state === 'analyzing' || state === 'result' || state === 'error') && image && (...)\<close>
  holding the image \<^verbatim>\<open><img src={image}>\<close>, the spinner while analyzing, the result card
  under \<^verbatim>\<open>state === 'result' && analysis\<close> and the error card with its text
  \<^verbatim>\<open>{error}\<close> under \<^verbatim>\<open>state === 'error'\<close>.
\<close>

record View =
  idleScreen :: bool
  viewfinder :: bool
  analyzedImage :: "string option"
  spinner :: bool
  resultCard :: "ResultCard option"
  errorCard :: "string option option"

definition render :: "WasteAnalysis App \<Rightarrow> View" where
  "render s =
     (let panel = ((state s = Analyzing \<or> state s = Result \<or> state s = Error)
                   \<and> truthy (image' s))
      in \<lparr>idleScreen = (state s = Idle),
          viewfinder = (state s = Capturing),
          analyzedImage = (if panel then image' s else None),
          spinner = (panel \<and> state s = Analyzing),
          resultCard = (if panel \<and> state s = Result
                        then map_option renderResult (analysis s) else None),
          errorCard = (if panel \<and> state s = Error then Some (error s) else None)\<rparr>)"

section \<open>Concrete states and environments\<close>

text \<open>
  The component as first mounted: \<^verbatim>\<open>useState('idle')\<close>, \<^verbatim>\<open>useState(null)\<close> three times, the
  canvas mounted, no video element, nothing stopped, nothing requested.
\<close>

definition initialApp :: "'a App" where
  "initialApp =
     \<lparr>state = Idle, image' = None, analysis = None, error = None,
      videoRef = None, canvasRef = Some newCanvas, ended = {}, requests = []\<rparr>"

text \<open>Three answers of \<^verbatim>\<open>getUserMedia\<close>: permission denied, no camera, a one-track stream.\<close>

definition permissionDenied :: "MediaTrackConstraints \<Rightarrow> DOMException + MediaStream" where
  "permissionDenied c = Inl NotAllowedError"

definition noCamera :: "MediaTrackConstraints \<Rightarrow> DOMException + MediaStream" where
  "noCamera c = Inl NotFoundError"

definition rearCamera :: "MediaTrackConstraints \<Rightarrow> DOMException + MediaStream" where
  "rearCamera c = Inr [0]"

text \<open>
  The viewfinder while the permission prompt is still open (the state \<^verbatim>\<open>startCamera\<close>
  leaves at its \<^verbatim>\<open>await\<close>), and the viewfinder showing a live two-by-one frame.
\<close>

definition awaitingPermission :: "'a App" where
  "awaitingPermission = commit (setState Capturing initialApp)"

definition liveViewfinder :: "'a App" where
  "liveViewfinder =
     initialApp\<lparr>state := Capturing,
       videoRef := Some \<lparr>srcObject = Some [0], videoWidth = 2, videoHeight = 1,
                         currentFrame = Some [255, 0, 0, 255, 0, 0, 255, 255]\<rparr>\<rparr>"

text \<open>An encoder that writes the samples out as bytes, standing for the browser's.\<close>

definition rawEncoder :: encoder where
  "rawEncoder w h px quality = map of_nat px"

text \<open>Two classification clients as the controller sees them, and the analysis of the
  rendering example.\<close>

definition plasticBottle :: WasteAnalysis where
  "plasticBottle =
     \<lparr>mainMaterial = ''Plastic'',
      confidences = [(''glass'', 10), (''plastic'', 70), (''paper'', 10),
                     (''cardboard'', 5), (''other'', 5)],
      recyclingTip = ''Rinse and remove the cap.'',
      isRecyclable = True\<rparr>"

definition offline :: "string \<Rightarrow> thrown + WasteAnalysis" where
  "offline base64 = Inl (Rejected ''Failed to fetch'')"

definition recognisesPlastic :: "string \<Rightarrow> thrown + WasteAnalysis" where
  "recognisesPlastic base64 = Inr plasticBottle"

text \<open>A four-byte file (the start of the PNG signature), and the same file gone by the
  time it is read.\<close>

definition pngFile :: File where
  "pngFile =
     \<lparr>fileType = ''image/png'', contents = [0x89, 0x50, 0x4E, 0x47], readable = True\<rparr>"

definition lostFile :: File where
  "lostFile = pngFile\<lparr>readable := False\<rparr>"

text \<open>
  A service that answers every request with the text \<^verbatim>\<open>{}\<close>, and \<^verbatim>\<open>JSON.parse\<close> as far as
  that text goes: it denotes the empty object.
\<close>

definition answersEmptyObject :: "GenerateContentParameters \<Rightarrow> thrown + string option" where
  "answersEmptyObject r = Inr (Some ''{}'')"

definition parseEmptyObject :: "string \<Rightarrow> thrown + json" where
  "parseEmptyObject txt = (if txt = ''{}'' then Inr (JObject []) else Inl SyntaxError)"

text \<open>A service that cannot be reached, one whose response has no text, one that answers
  with the text of an unclosed brace, and one that answers \<^verbatim>\<open>{}\<close> to the request
  carrying the Base64 of the four-byte file and rejects every other.\<close>

definition serviceDown :: "GenerateContentParameters \<Rightarrow> thrown + string option" where
  "serviceDown r = Inl (Rejected ''Failed to fetch'')"

definition answersNothing :: "GenerateContentParameters \<Rightarrow> thrown + string option" where
  "answersNothing r = Inr None"

definition answersBrace :: "GenerateContentParameters \<Rightarrow> thrown + string option" where
  "answersBrace r = Inr (Some ''{'')"

definition expectsPngBody :: "GenerateContentParameters \<Rightarrow> thrown + string option" where
  "expectsPngBody r =
     (if data r = Some ''iVBORw=='' then Inr (Some ''{}'')
      else Inl (Rejected ''unexpected payload''))"

text \<open>The error state after a failed classification of an uploaded file.\<close>

definition failedScan :: "WasteAnalysis App" where
  "failedScan =
     initialApp\<lparr>state := Error,
       image' := Some ''data:image/png;base64,iVBORw=='',
       error := Some ''AI analysis failed. Please try a different photo.'',
       requests := [''data:image/png;base64,iVBORw=='']\<rparr>"

text \<open>
  What the canvas is to hold after a capture, in the words of the contract: a raster of
  the video's native size with the current frame in it (blank while there is none).
\<close>

definition nativeRaster :: "HTMLVideoElement \<Rightarrow> HTMLCanvasElement" where
  "nativeRaster video =
     \<lparr>width = videoWidth video, height = videoHeight video,
      bitmap = (case currentFrame video of
                  None \<Rightarrow> blank (videoWidth video) (videoHeight video)
                | Some frame \<Rightarrow> frame),
      context2d = True\<rparr>"

text \<open>The analysis of the rendering example as the JSON value the service would send.\<close>

definition plasticJson :: json where
  "plasticJson = JObject
     [(''mainMaterial'', JString ''Plastic''),
      (''confidences'', JObject [(''glass'', JNumber 10), (''plastic'', JNumber 70),
         (''paper'', JNumber 10), (''cardboard'', JNumber 5), (''other'', JNumber 5)]),
      (''recyclingTip'', JString ''Rinse and remove the cap.''),
      (''isRecyclable'', JBool True)]"

text \<open>The analyzing state that \<open>failedScan\<close> came from.\<close>

definition awaitingResult :: "WasteAnalysis App" where
  "awaitingResult = failedScan\<lparr>state := Analyzing, error := None\<rparr>"

section \<open>Properties\<close>

lemmas setters = setState_def setImage_def setAnalysis_def setError_def

lemma stopCamera_fields:
  "state (stopCamera s) = state s" "image' (stopCamera s) = image' s"
  "analysis (stopCamera s) = analysis s" "error (stopCamera s) = error s"
  "videoRef (stopCamera s) = videoRef s" "canvasRef (stopCamera s) = canvasRef s"
  "requests (stopCamera s) = requests s"
  by (simp_all add: stopCamera_def split: option.splits)

text \<open>The run of \<open>processAnalysis\<close>: its states, its one call, the image untouched.\<close>

lemma processAnalysis_states:
  "map state (processAnalysis analyze base64 s)
     = replicate 5 Analyzing
       @ replicate 2 (case analyze base64 of Inr r \<Rightarrow> Result | Inl e \<Rightarrow> Error)"
  by (simp add: processAnalysis_def settled_def Let_def setters commit_def numeral_eq_Suc
      split: sum.splits)

lemma processAnalysis_requests:
  "requests (final s (processAnalysis analyze base64 s)) = requests s @ [base64]"
  by (simp add: processAnalysis_def settled_def Let_def setters commit_def final_def
      split: sum.splits)

lemma processAnalysis_image:
  "t \<in> set (processAnalysis analyze base64 s) \<Longrightarrow> image' t = image' s"
  by (auto simp add: processAnalysis_def settled_def Let_def setters commit_def
      split: sum.splits)

subsection \<open>Camera\<close>

text \<open>
  C1. Whenever \<open>getUserMedia\<close> rejects (permission denied, no camera), the run of
  \<open>startCamera\<close> ends in the error state with the capture error message set, and no
  state of the run is the capturing state with a stream attached to the viewfinder.
  The run starts without a stream attached, as it does from the idle screen.
\<close>

theorem C1_startCamera_denied:
  assumes "getUserMedia videoConstraints = Inl err" and "\<not> streamAttached s"
  shows "state (final s (startCamera getUserMedia s)) = Error
       \<and> error (final s (startCamera getUserMedia s))
           = Some ''Unable to access camera. Please check permissions.''
       \<and> (\<forall>t \<in> set (startCamera getUserMedia s). \<not> videoActive t)"
  using assms
  by (auto simp add: startCamera_def final_def Let_def setters commit_def videoActive_def
      streamAttached_def newVideo_def split: option.splits)

theorem C1_startCamera_denied_witness:
  "permissionDenied videoConstraints = Inl NotAllowedError
   \<and> \<not> streamAttached (initialApp :: WasteAnalysis App)
   \<and> state (final (initialApp :: WasteAnalysis App) (startCamera permissionDenied initialApp))
       = Error
   \<and> error (final (initialApp :: WasteAnalysis App) (startCamera permissionDenied initialApp))
       = Some ''Unable to access camera. Please check permissions.''
   \<and> map videoActive (startCamera permissionDenied (initialApp :: WasteAnalysis App))
       = [False, False, False, False, False]"
  using C1_startCamera_denied
    [of permissionDenied NotAllowedError "initialApp :: WasteAnalysis App"]
  by (simp add: permissionDenied_def initialApp_def streamAttached_def startCamera_def Let_def
      setters commit_def videoActive_def newVideo_def final_def)

text \<open>
  The substate is reachable: when the stream is granted the run ends in it. And the
  state a denial ends in, coming from the idle screen with no image, renders no card.
\<close>

lemma startCamera_granted:
  "videoActive (final (initialApp :: 'a App) (startCamera rearCamera initialApp))"
  by (simp add: rearCamera_def initialApp_def streamAttached_def startCamera_def Let_def
      setters commit_def videoActive_def newVideo_def final_def)

lemma startCamera_denied_view:
  "render (final (initialApp :: WasteAnalysis App) (startCamera permissionDenied initialApp))
     = \<lparr>idleScreen = False, viewfinder = False, analyzedImage = None, spinner = False,
        resultCard = None, errorCard = None\<rparr>"
  by (simp add: permissionDenied_def initialApp_def startCamera_def Let_def
      setters commit_def final_def render_def truthy_def)

text \<open>
  C7. With no active media stream \<open>stopCamera\<close> changes nothing at all; it has no error
  result; in every state it leaves the app state, image, analysis and error as they
  are; and a second call changes nothing the first has not.
\<close>

theorem C7_stopCamera_idempotent:
  "(\<not> streamActive s \<longrightarrow> stopCamera s = s)
   \<and> state (stopCamera s) = state s \<and> image' (stopCamera s) = image' s
   \<and> analysis (stopCamera s) = analysis s \<and> error (stopCamera s) = error s
   \<and> stopCamera (stopCamera s) = stopCamera s"
  by (auto simp add: stopCamera_def streamActive_def Un_absorb2 split: option.splits)

theorem C7_stopCamera_idempotent_witness:
  "\<not> streamActive (initialApp :: WasteAnalysis App)
   \<and> stopCamera (initialApp :: WasteAnalysis App) = initialApp
   \<and> stopCamera (stopCamera (liveViewfinder :: WasteAnalysis App)) = stopCamera liveViewfinder
   \<and> ended (stopCamera (liveViewfinder :: WasteAnalysis App)) = {0}"
  using C7_stopCamera_idempotent [of "initialApp :: WasteAnalysis App"]
    C7_stopCamera_idempotent [of "liveViewfinder :: WasteAnalysis App"]
  by (simp add: streamActive_def initialApp_def liveViewfinder_def stopCamera_def)

subsection \<open>Capture\<close>

lemma processAnalysis_final:
  "image' (final s (processAnalysis analyze base64 s)) = image' s"
  "ended (final s (processAnalysis analyze base64 s)) = ended s"
  "canvasRef s = Some c \<Longrightarrow> canvasRef (final s (processAnalysis analyze base64 s)) = Some c"
  "state (final s (processAnalysis analyze base64 s))
     = (case analyze base64 of Inr r \<Rightarrow> Result | Inl e \<Rightarrow> Error)"
  by (simp_all add: processAnalysis_def settled_def Let_def setters commit_def final_def
      split: sum.splits)

lemma final_then_processAnalysis:
  "final s (steps @ processAnalysis analyze base64 s')
     = final s' (processAnalysis analyze base64 s')"
  by (simp add: final_def processAnalysis_def Let_def)

lemma capturePhoto_noop:
  "capturePhoto encode analyze s = [] \<longleftrightarrow> videoRef s = None \<or> canvasRef s = None"
  by (cases "videoRef s"; cases "canvasRef s") (simp_all add: capturePhoto_def Let_def)

lemma drawn_raster:
  assumes "context2d canvas"
  shows "drawImage video (videoWidth video) (videoHeight video)
           (setHeight (videoHeight video) (setWidth (videoWidth video) canvas))
         = nativeRaster video"
  using assms
  by (simp add: drawImage_def setHeight_def setWidth_def nativeRaster_def split: option.splits)

lemma capturePhoto_run:
  assumes "videoRef s = Some video" and "canvasRef s = Some canvas" and "context2d canvas"
  shows "capturePhoto encode analyze s =
     (let canvas1 = setHeight (videoHeight video) (setWidth (videoWidth video) canvas);
          dataUrl = toDataURL encode ''image/jpeg'' (85 / 100) (nativeRaster video);
          s1 = s\<lparr>canvasRef := Some canvas1\<rparr>;
          s2 = s\<lparr>canvasRef := Some (nativeRaster video)\<rparr>;
          s3 = setImage (Some dataUrl) s2;
          s4 = stopCamera s3
      in [s1, s2, s3, s4] @ processAnalysis analyze dataUrl s4)"
proof -
  have "context2d (setHeight (videoHeight video) (setWidth (videoWidth video) canvas))"
    using assms(3) by (simp add: setHeight_def setWidth_def)
  then show ?thesis
    using assms by (simp add: capturePhoto_def Let_def drawn_raster)
qed

lemma capturePhoto_final:
  assumes "videoRef s = Some video" and "canvasRef s = Some canvas" and "context2d canvas"
    and "dataUrl = toDataURL encode ''image/jpeg'' (85 / 100) (nativeRaster video)"
    and "t = final s (capturePhoto encode analyze s)"
  shows "canvasRef t = Some (nativeRaster video)" and "image' t = Some dataUrl"
    and "ended t = (case srcObject video of None \<Rightarrow> ended s
                    | Some stream \<Rightarrow> ended s \<union> set stream)"
    and "requests t = requests s @ [dataUrl]"
    and "state t = (case analyze dataUrl of Inr r \<Rightarrow> Result | Inl e \<Rightarrow> Error)"
proof -
  let ?s4 = "stopCamera (setImage (Some dataUrl) (s\<lparr>canvasRef := Some (nativeRaster video)\<rparr>))"
  have t: "t = final ?s4 (processAnalysis analyze dataUrl ?s4)"
    unfolding assms(5) capturePhoto_run [OF assms(1-3)] Let_def assms(4) [symmetric]
    by (rule final_then_processAnalysis)
  have s4: "canvasRef ?s4 = Some (nativeRaster video)" "image' ?s4 = Some dataUrl"
    "requests ?s4 = requests s"
    by (simp_all add: stopCamera_fields setters)
  have e4: "ended ?s4 = (case srcObject video of None \<Rightarrow> ended s
                    | Some stream \<Rightarrow> ended s \<union> set stream)"
    using assms(1) by (simp add: stopCamera_def setters split: option.splits)
  show "canvasRef t = Some (nativeRaster video)"
    unfolding t by (rule processAnalysis_final(3) [OF s4(1)])
  show "image' t = Some dataUrl"
    unfolding t by (simp add: processAnalysis_final(1) s4(2))
  show "ended t = (case srcObject video of None \<Rightarrow> ended s
                    | Some stream \<Rightarrow> ended s \<union> set stream)"
    unfolding t by (simp only: processAnalysis_final(2) e4)
  show "requests t = requests s @ [dataUrl]"
    unfolding t by (simp only: processAnalysis_requests s4(3))
  show "state t = (case analyze dataUrl of Inr r \<Rightarrow> Result | Inl e \<Rightarrow> Error)"
    unfolding t by (rule processAnalysis_final(4))
qed

text \<open>
  C5, as the code has it. \<open>capturePhoto\<close> takes no step exactly when the video element
  or the canvas element is absent. With both present (and a 2D context), whether or not
  the video has a frame yet, the canvas ends as the raster of the video's native size
  holding the current frame, the image is that canvas encoded as JPEG at quality 0.85,
  every track of the attached stream is stopped, and the encoded image is handed to the
  classification client, whose answer decides between result and error.
\<close>

theorem C5_capturePhoto:
  "(capturePhoto encode analyze s = [] \<longleftrightarrow> videoRef s = None \<or> canvasRef s = None)
   \<and> (\<forall>video canvas.
         videoRef s = Some video \<and> canvasRef s = Some canvas \<and> context2d canvas \<longrightarrow>
         (let dataUrl = toDataURL encode ''image/jpeg'' (85 / 100) (nativeRaster video);
              t = final s (capturePhoto encode analyze s)
          in canvasRef t = Some (nativeRaster video)
             \<and> image' t = Some dataUrl
             \<and> ended t = (case srcObject video of None \<Rightarrow> ended s
                           | Some stream \<Rightarrow> ended s \<union> set stream)
             \<and> requests t = requests s @ [dataUrl]
             \<and> state t = (case analyze dataUrl of Inr r \<Rightarrow> Result | Inl e \<Rightarrow> Error)))"
proof (intro conjI allI impI)
  show "capturePhoto encode analyze s = [] \<longleftrightarrow> videoRef s = None \<or> canvasRef s = None"
    by (rule capturePhoto_noop)
next
  fix video canvas
  assume "videoRef s = Some video \<and> canvasRef s = Some canvas \<and> context2d canvas"
  then have h: "videoRef s = Some video" "canvasRef s = Some canvas" "context2d canvas"
    by simp_all
  note fin = capturePhoto_final [OF h refl refl, of encode analyze]
  show "let dataUrl = toDataURL encode ''image/jpeg'' (85 / 100) (nativeRaster video);
            t = final s (capturePhoto encode analyze s)
        in canvasRef t = Some (nativeRaster video)
           \<and> image' t = Some dataUrl
           \<and> ended t = (case srcObject video of None \<Rightarrow> ended s
                         | Some stream \<Rightarrow> ended s \<union> set stream)
           \<and> requests t = requests s @ [dataUrl]
           \<and> state t = (case analyze dataUrl of Inr r \<Rightarrow> Result | Inl e \<Rightarrow> Error)"
    unfolding Let_def
    by (intro conjI) (rule fin)+
qed

lemma jpeg_of_frame:
  "toDataURL rawEncoder ''image/jpeg'' (85 / 100)
     \<lparr>width = 2, height = 1, bitmap = [255, 0, 0, 255, 0, 0, 255, 255], context2d = True\<rparr>
   = ''data:image/jpeg;base64,/wAA/wAA//8=''"
  by (simp add: toDataURL_def rawEncoder_def sextet_def alphabet_def)


theorem C5_capturePhoto_witness:
  "videoRef (liveViewfinder :: WasteAnalysis App)
     = Some \<lparr>srcObject = Some [0], videoWidth = 2, videoHeight = 1,
              currentFrame = Some [255, 0, 0, 255, 0, 0, 255, 255]\<rparr>
   \<and> canvasRef (liveViewfinder :: WasteAnalysis App) = Some newCanvas \<and> context2d newCanvas
   \<and> canvasRef (final liveViewfinder (capturePhoto rawEncoder recognisesPlastic liveViewfinder))
       = Some \<lparr>width = 2, height = 1, bitmap = [255, 0, 0, 255, 0, 0, 255, 255],
                context2d = True\<rparr>
   \<and> image' (final liveViewfinder (capturePhoto rawEncoder recognisesPlastic liveViewfinder))
       = Some ''data:image/jpeg;base64,/wAA/wAA//8=''
   \<and> ended (final liveViewfinder (capturePhoto rawEncoder recognisesPlastic liveViewfinder))
       = {0}
   \<and> requests (final liveViewfinder (capturePhoto rawEncoder recognisesPlastic liveViewfinder))
       = [''data:image/jpeg;base64,/wAA/wAA//8='']
   \<and> state (final liveViewfinder (capturePhoto rawEncoder recognisesPlastic liveViewfinder))
       = Result
   \<and> capturePhoto rawEncoder recognisesPlastic (initialApp :: WasteAnalysis App) = []"
proof -
  have live: "videoRef (liveViewfinder :: WasteAnalysis App)
     = Some \<lparr>srcObject = Some [0], videoWidth = 2, videoHeight = 1,
              currentFrame = Some [255, 0, 0, 255, 0, 0, 255, 255]\<rparr>"
    "canvasRef (liveViewfinder :: WasteAnalysis App) = Some newCanvas" "context2d newCanvas"
    "ended (liveViewfinder :: WasteAnalysis App) = {}"
    "requests (liveViewfinder :: WasteAnalysis App) = []"
    "videoRef (initialApp :: WasteAnalysis App) = None"
    by (simp_all add: liveViewfinder_def initialApp_def newCanvas_def)
  have raster: "nativeRaster \<lparr>srcObject = Some [0], videoWidth = 2, videoHeight = 1,
              currentFrame = Some [255, 0, 0, 255, 0, 0, 255, 255]\<rparr>
      = \<lparr>width = 2, height = 1, bitmap = [255, 0, 0, 255, 0, 0, 255, 255], context2d = True\<rparr>"
    by (simp add: nativeRaster_def)
  note shot = C5_capturePhoto [of rawEncoder recognisesPlastic liveViewfinder,
      THEN conjunct2, rule_format, OF conjI [OF live(1) conjI [OF live(2) live(3)]],
      unfolded Let_def raster jpeg_of_frame]
  show ?thesis
    using shot C5_capturePhoto [of rawEncoder recognisesPlastic "initialApp :: WasteAnalysis App"]
    by (simp add: live recognisesPlastic_def)
qed

lemma awaiting_refs:
  "videoRef (awaitingPermission :: 'a App) = Some newVideo"
  "canvasRef (awaitingPermission :: 'a App) = Some newCanvas"
  "requests (awaitingPermission :: 'a App) = []"
  by (simp_all add: awaitingPermission_def initialApp_def commit_def setters)

lemma blank_url:
  "toDataURL encode type quality (nativeRaster newVideo) = ''data:,''"
  by (simp add: toDataURL_def nativeRaster_def newVideo_def)

text \<open>
  The viewfinder is mounted and the permission prompt still open: no stream, no frame.
  The capture is not a no-op there: the empty canvas is encoded, stored as the image and
  handed to the classification client, and the run goes on to the error state.
\<close>

theorem C5_capturePhoto_no_frame:
  "videoRef (awaitingPermission :: WasteAnalysis App) = Some newVideo
   \<and> srcObject newVideo = None \<and> currentFrame newVideo = None
   \<and> capturePhoto rawEncoder offline awaitingPermission \<noteq> []
   \<and> image' (final awaitingPermission (capturePhoto rawEncoder offline awaitingPermission))
       = Some ''data:,''
   \<and> requests (final awaitingPermission (capturePhoto rawEncoder offline awaitingPermission))
       = [''data:,'']
   \<and> state (final awaitingPermission (capturePhoto rawEncoder offline awaitingPermission))
       = Error"
proof -
  have ctx: "context2d newCanvas" by (simp add: newCanvas_def)
  note fin = capturePhoto_final [OF awaiting_refs(1,2) ctx refl refl, of rawEncoder offline,
      unfolded blank_url]
  have "capturePhoto rawEncoder offline (awaitingPermission :: WasteAnalysis App) \<noteq> []"
    by (simp add: capturePhoto_noop awaiting_refs)
  moreover have "srcObject newVideo = None \<and> currentFrame newVideo = None"
    by (simp add: newVideo_def)
  ultimately show ?thesis
    using fin(2,4,5) by (simp add: awaiting_refs offline_def)
qed

subsection \<open>Controller\<close>

text \<open>
  C3. From the result state or the error state, whatever image, analysis and error are
  held, \<open>reset\<close> ends with image, analysis and error all null and the state idle.
\<close>

theorem C3_reset_clears:
  assumes "state s = Result \<or> state s = Error"
  shows "image' (final s (reset s)) = None \<and> analysis (final s (reset s)) = None
       \<and> error (final s (reset s)) = None \<and> state (final s (reset s)) = Idle"
  by (simp add: final_def reset_def Let_def commit_def setters)

theorem C3_reset_clears_witness:
  "state failedScan = Error \<and> image' failedScan \<noteq> None \<and> error failedScan \<noteq> None
   \<and> image' (final failedScan (reset failedScan)) = None
   \<and> analysis (final failedScan (reset failedScan)) = None
   \<and> error (final failedScan (reset failedScan)) = None
   \<and> state (final failedScan (reset failedScan)) = Idle"
  using C3_reset_clears [of failedScan]
  by (simp add: failedScan_def initialApp_def)

text \<open>
  C4. When the classification call rejects, the controller, which is in the analyzing
  state from the call on, goes to the error state, and the error message stored is a
  non-empty string.
\<close>

theorem C4_classification_failure:
  assumes "analyze base64 = Inl err"
  shows "map state (processAnalysis analyze base64 s)
           = [Analyzing, Analyzing, Analyzing, Analyzing, Analyzing, Error, Error]
       \<and> state (final s (processAnalysis analyze base64 s)) = Error
       \<and> (case error (final s (processAnalysis analyze base64 s)) of
            None \<Rightarrow> False | Some message \<Rightarrow> message \<noteq> [])"
  using assms
  by (simp add: processAnalysis_def settled_def final_def Let_def setters commit_def)

theorem C4_classification_failure_witness:
  "offline ''data:,'' = Inl (Rejected ''Failed to fetch'')
   \<and> map state (processAnalysis offline ''data:,'' initialApp)
       = [Analyzing, Analyzing, Analyzing, Analyzing, Analyzing, Error, Error]
   \<and> error (final initialApp (processAnalysis offline ''data:,'' initialApp))
       = Some ''AI analysis failed. Please try a different photo.''"
  using C4_classification_failure
    [of offline "''data:,''" "Rejected ''Failed to fetch''" initialApp]
  by (simp add: offline_def processAnalysis_def settled_def final_def Let_def setters
      commit_def initialApp_def)

text \<open>Entering the result state or the error state, and what the view shows there.\<close>

lemma settled_state:
  "state (final s (settled outcome s)) = (case outcome of Inr r \<Rightarrow> Result | Inl e \<Rightarrow> Error)"
  by (simp add: settled_def final_def Let_def setters commit_def split: sum.splits)

lemma settled_image: "image' (final s (settled outcome s)) = image' s"
  by (simp add: settled_def final_def Let_def setters commit_def split: sum.splits)

lemma settled_fields:
  assumes "t \<in> set (settled outcome s)"
  shows "image' t = image' s" and "error s \<noteq> None \<Longrightarrow> error t \<noteq> None"
  using assms
  by (auto simp add: settled_def Let_def setters commit_def split: sum.splits)

lemma error_card_with_image:
  "errorCard (render u) \<noteq> None \<Longrightarrow> analyzedImage (render u) = image' u"
  by (simp add: render_def Let_def split: if_splits)

lemma panel_shows_image:
  "state u = Error \<or> state u = Result \<Longrightarrow> truthy (image' u)
     \<Longrightarrow> analyzedImage (render u) = image' u"
  by (auto simp add: render_def Let_def)

lemma reset_final:
  "image' (final u (reset u)) = None" "error (final u (reset u)) = None"
  by (simp_all add: final_def reset_def Let_def commit_def setters)

text \<open>
  C8. The steps that enter the result state or the error state leave the stored image
  as it is, and set no stored error to null; in the state entered the view shows that
  image (whenever the error card is shown, the image is shown with it); image and error
  are cleared by the reset that follows.
\<close>

theorem C8_image_kept_until_reset:
  fixes s :: "WasteAnalysis App"
  shows "let u = final s (settled outcome s) in
           (\<forall>t \<in> set (settled outcome s).
              image' t = image' s \<and> (error s \<noteq> None \<longrightarrow> error t \<noteq> None))
         \<and> (state u = Error \<or> state u = Result)
         \<and> (truthy (image' s) \<longrightarrow> analyzedImage (render u) = image' s)
         \<and> (errorCard (render u) \<noteq> None \<longrightarrow> analyzedImage (render u) = image' s)
         \<and> image' (final u (reset u)) = None \<and> error (final u (reset u)) = None"
proof -
  define u where "u = final s (settled outcome s)"
  have st: "state u = Error \<or> state u = Result"
    unfolding u_def settled_state by (cases outcome) simp_all
  have im: "image' u = image' s"
    unfolding u_def by (rule settled_image)
  have a: "\<forall>t \<in> set (settled outcome s).
              image' t = image' s \<and> (error s \<noteq> None \<longrightarrow> error t \<noteq> None)"
    using settled_fields [of _ outcome s] by blast
  have c: "truthy (image' s) \<longrightarrow> analyzedImage (render u) = image' s"
    using panel_shows_image [OF st] im by simp
  have d: "errorCard (render u) \<noteq> None \<longrightarrow> analyzedImage (render u) = image' s"
    using error_card_with_image [of u] im by simp
  show ?thesis
    unfolding Let_def u_def [symmetric]
    using a st c d reset_final [of u] by blast
qed

lemma failedScan_entered:
  "final awaitingResult (settled (Inl (Rejected ''Failed to fetch'')) awaitingResult) = failedScan"
  by (simp add: awaitingResult_def failedScan_def initialApp_def settled_def final_def
      Let_def setters commit_def)

theorem C8_image_kept_until_reset_witness:
  "map image' (settled (Inl (Rejected ''Failed to fetch'')) awaitingResult)
      = [Some ''data:image/png;base64,iVBORw=='', Some ''data:image/png;base64,iVBORw=='',
         Some ''data:image/png;base64,iVBORw=='']
   \<and> state failedScan = Error
   \<and> truthy (image' awaitingResult)
   \<and> errorCard (render failedScan)
       = Some (Some ''AI analysis failed. Please try a different photo.'')
   \<and> analyzedImage (render failedScan) = Some ''data:image/png;base64,iVBORw==''
   \<and> image' (final failedScan (reset failedScan)) = None
   \<and> error (final failedScan (reset failedScan)) = None"
proof -
  have img: "image' awaitingResult = Some ''data:image/png;base64,iVBORw=='' "
    by (simp add: awaitingResult_def failedScan_def)
  have steps: "map image' (settled (Inl (Rejected ''Failed to fetch'')) awaitingResult)
      = [Some ''data:image/png;base64,iVBORw=='', Some ''data:image/png;base64,iVBORw=='',
         Some ''data:image/png;base64,iVBORw=='']"
    by (simp add: awaitingResult_def failedScan_def settled_def Let_def setters commit_def)
  have card: "errorCard (render failedScan)
       = Some (Some ''AI analysis failed. Please try a different photo.'')"
    by (simp add: failedScan_def initialApp_def render_def truthy_def)
  show ?thesis
    using C8_image_kept_until_reset [of awaitingResult "Inl (Rejected ''Failed to fetch'')",
        unfolded Let_def failedScan_entered]
    by (simp add: img steps card truthy_def) (simp add: failedScan_def)
qed

text \<open>
  C10. With an empty file selection (\<^verbatim>\<open>files\<close> null or without a first file)
  \<open>handleFileUpload\<close> takes no step: the component state, with its image, analysis,
  error and the log of classification calls, is as it was.
\<close>

theorem C10_empty_selection:
  assumes "files = None \<or> files = Some []"
  shows "handleFileUpload analyze files s = []
       \<and> final s (handleFileUpload analyze files s) = s"
  using assms by (auto simp: handleFileUpload_def index_def final_def)

theorem C10_empty_selection_witness:
  "handleFileUpload recognisesPlastic (Some []) liveViewfinder = []
   \<and> final liveViewfinder (handleFileUpload recognisesPlastic (Some []) liveViewfinder)
       = liveViewfinder"
  using C10_empty_selection [of "Some []" recognisesPlastic liveViewfinder]
  by (simp add: final_def)

subsection \<open>Upload\<close>

text \<open>The pieces of a data URL: nothing before its comma, and nothing in a Base64 body, is
  a comma, so that the second piece of the split is the body.\<close>

lemma split_no_sep: "sep \<notin> set s \<Longrightarrow> split sep s = [s]"
  by (induction s) auto

lemma split_at_first: "sep \<notin> set a \<Longrightarrow> split sep (a @ sep # b) = a # split sep b"
  by (induction a) auto

lemma sextet_in_alphabet: "sextet n \<in> set alphabet"
proof -
  have "n mod 64 < length alphabet" by (simp add: alphabet_def)
  then show ?thesis unfolding sextet_def by (rule nth_mem)
qed

lemma sextet_not_comma: "sextet n \<noteq> CHR '',''"
proof -
  have "CHR '','' \<notin> set alphabet" by (simp add: alphabet_def)
  with sextet_in_alphabet [of n] show ?thesis by auto
qed

lemma base64_encode_no_comma: "CHR '','' \<notin> set (base64_encode bs)"
  by (induction bs rule: base64_encode.induct)
     (simp_all add: Let_def sextet_not_comma sextet_not_comma [symmetric])

text \<open>Decoding the encoding gives the bytes back.\<close>

lemma position_nth: "distinct xs \<Longrightarrow> i < length xs \<Longrightarrow> position (xs ! i) xs = i"
proof (induction xs arbitrary: i)
  case Nil
  then show ?case by simp
next
  case (Cons x xs)
  show ?case
  proof (cases i)
    case 0
    then show ?thesis by simp
  next
    case (Suc j)
    with Cons.prems have "xs ! j \<in> set xs" "x \<notin> set xs" by auto
    then have "xs ! j \<noteq> x" by auto
    with Suc Cons show ?thesis by simp
  qed
qed

lemma distinct_alphabet: "distinct alphabet"
  unfolding alphabet_def by code_simp

lemma sextet_not_pad: "sextet n \<noteq> CHR ''=''"
proof -
  have "CHR ''='' \<notin> set alphabet" by (simp add: alphabet_def)
  moreover have "sextet n \<in> set alphabet"
    unfolding sextet_def by (rule nth_mem) (simp add: alphabet_def)
  ultimately show ?thesis by auto
qed

lemma sextet_value_sextet: "sextet_value (sextet n) = n mod 64"
proof -
  have "position (sextet n) alphabet = n mod 64"
    unfolding sextet_def by (rule position_nth [OF distinct_alphabet]) (simp add: alphabet_def)
  then show ?thesis by (simp add: sextet_value_def sextet_not_pad)
qed

lemma regroup3:
  fixes n :: nat
  assumes "n < 16777216"
  shows "(((n div 262144) mod 64 * 64 + (n div 4096) mod 64) * 64 + (n div 64) mod 64) * 64
           + n mod 64 = n"
proof -
  have q2: "n div 4096 = n div 64 div 64" and q3: "n div 262144 = n div 4096 div 64"
    by (simp_all add: div_mult2_eq)
  have top: "(n div 262144) mod 64 = n div 262144"
    using assms by simp
  have "n = n div 64 * 64 + n mod 64" by simp
  moreover have "n div 64 = n div 4096 * 64 + (n div 64) mod 64"
    unfolding q2 by simp
  moreover have "n div 4096 = n div 262144 * 64 + (n div 4096) mod 64"
    unfolding q3 by simp
  ultimately show ?thesis
    unfolding top by presburger
qed

lemma digit_hi:
  fixes x y z :: nat
  assumes "y < 256" and "z < 256"
  shows "(x * 65536 + y * 256 + z) div 65536 = x"
  using assms by simp

lemma digit_mid:
  fixes x y z :: nat
  assumes "y < 256" and "z < 256"
  shows "(x * 65536 + y * 256 + z) div 256 mod 256 = y"
proof -
  have "(x * 65536 + y * 256 + z) div 256 = x * 256 + y" using assms(2) by simp
  then show ?thesis using assms(1) by simp
qed

lemma digit_lo:
  fixes x y z :: nat
  assumes "z < 256"
  shows "(x * 65536 + y * 256 + z) mod 256 = z"
proof -
  have "x * 65536 + y * 256 + z = (x * 256 + y) * 256 + z" by simp
  then have "(x * 65536 + y * 256 + z) mod 256 = ((x * 256 + y) * 256 + z) mod 256"
    by (rule arg_cong)
  also have "\<dots> = z mod 256" by (rule mod_mult_self3)
  also have "\<dots> = z" using assms by (rule mod_less)
  finally show ?thesis .
qed

lemma low_zero1:
  fixes x y :: nat
  shows "(x * 65536 + y * 256) mod 64 = 0"
proof -
  have "x * 65536 + y * 256 = (x * 1024 + y * 4) * 64" by simp
  then show ?thesis by (metis mod_mult_self2_is_0)
qed

lemma low_zero2:
  fixes x :: nat
  shows "(x * 65536) mod 64 = 0" and "(x * 65536) div 64 mod 64 = 0"
proof -
  have a: "x * 65536 = (x * 1024) * 64" by simp
  show "(x * 65536) mod 64 = 0" unfolding a by (rule mod_mult_self2_is_0)
  have "(x * 65536) div 64 = (x * 16) * 64" by simp
  then show "(x * 65536) div 64 mod 64 = 0" by (metis mod_mult_self2_is_0)
qed


lemma byte_bound: "unat (a :: 8 word) < 256"
  using unsigned_less [of a, where 'a = nat] by simp

lemma sextets_full:
  assumes "n < 16777216"
  shows "sextets (sextet (n div 262144)) (sextet (n div 4096)) (sextet (n div 64)) (sextet n) = n"
  unfolding sextets_def sextet_value_sextet by (rule regroup3 [OF assms])

lemma sextets_pad1:
  assumes "n < 16777216" and "n mod 64 = 0"
  shows "sextets (sextet (n div 262144)) (sextet (n div 4096)) (sextet (n div 64)) CHR ''='' = n"
proof -
  have "sextet_value CHR ''='' = sextet_value (sextet n)"
    unfolding sextet_value_sextet assms(2) by (simp add: sextet_value_def)
  then have "sextets (sextet (n div 262144)) (sextet (n div 4096)) (sextet (n div 64)) CHR ''=''
      = sextets (sextet (n div 262144)) (sextet (n div 4096)) (sextet (n div 64)) (sextet n)"
    unfolding sextets_def by (rule arg_cong)
  then show ?thesis unfolding sextets_full [OF assms(1)] .
qed

lemma sextets_pad2:
  assumes "n < 16777216" and "n mod 64 = 0" and "n div 64 mod 64 = 0"
  shows "sextets (sextet (n div 262144)) (sextet (n div 4096)) CHR ''='' CHR ''='' = n"
proof -
  have "sextet_value CHR ''='' = sextet_value (sextet (n div 64))"
    unfolding sextet_value_sextet assms(3) by (simp add: sextet_value_def)
  then have "sextets (sextet (n div 262144)) (sextet (n div 4096)) CHR ''='' CHR ''=''
      = sextets (sextet (n div 262144)) (sextet (n div 4096)) (sextet (n div 64)) CHR ''=''"
    unfolding sextets_def by simp
  then show ?thesis unfolding sextets_pad1 [OF assms(1,2)] .
qed

lemma decode_three:
  fixes a b c :: "8 word"
  defines "n \<equiv> unat a * 65536 + unat b * 256 + unat c"
  shows "base64_decode ([sextet (n div 262144), sextet (n div 4096), sextet (n div 64), sextet n] @ cs)
           = [a, b, c] @ base64_decode cs"
proof -
  have n: "n < 16777216"
    unfolding n_def using byte_bound [of a] byte_bound [of b] byte_bound [of c] by linarith
  have d1: "n div 65536 = unat a"
    unfolding n_def by (rule digit_hi [OF byte_bound byte_bound])
  have d2: "n div 256 mod 256 = unat b"
    unfolding n_def by (rule digit_mid [OF byte_bound byte_bound])
  have d3: "n mod 256 = unat c"
    unfolding n_def by (rule digit_lo [OF byte_bound])
  show ?thesis
    by (simp add: Let_def sextet_not_pad sextets_full [OF n] d1 d2 d3)
qed

lemma decode_two:
  fixes a b :: "8 word"
  defines "n \<equiv> unat a * 65536 + unat b * 256"
  shows "base64_decode [sextet (n div 262144), sextet (n div 4096), sextet (n div 64), CHR ''='']
           = [a, b]"
proof -
  have n: "n < 16777216"
    unfolding n_def using byte_bound [of a] byte_bound [of b] by linarith
  have z: "n mod 64 = 0" unfolding n_def by (rule low_zero1)
  have n0: "n = unat a * 65536 + unat b * 256 + 0" unfolding n_def by simp
  have d1: "n div 65536 = unat a"
    unfolding n0 by (rule digit_hi [OF byte_bound]) simp
  have d2: "n div 256 mod 256 = unat b"
    unfolding n0 by (rule digit_mid [OF byte_bound]) simp
  show ?thesis
    by (simp add: Let_def sextet_not_pad sextets_pad1 [OF n z] d1 d2)
qed

lemma decode_one:
  fixes a :: "8 word"
  defines "n \<equiv> unat a * 65536"
  shows "base64_decode [sextet (n div 262144), sextet (n div 4096), CHR ''='', CHR ''='']
           = [a]"
proof -
  have n: "n < 16777216"
    unfolding n_def using byte_bound [of a] by linarith
  have z: "n mod 64 = 0" "n div 64 mod 64 = 0" unfolding n_def by (rule low_zero2)+
  have d1: "n div 65536 = unat a" unfolding n_def by simp
  show ?thesis
    by (simp add: Let_def sextets_pad2 [OF n z] d1)
qed

lemma base64_roundtrip: "base64_decode (base64_encode bs) = bs"
proof (induction bs rule: base64_encode.induct)
  case (1 a b c rest)
  have "base64_decode (base64_encode (a # b # c # rest))
          = [a, b, c] @ base64_decode (base64_encode rest)"
    unfolding base64_encode.simps Let_def by (rule decode_three)
  with 1 show ?case by simp
next
  case (2 a b)
  show ?case unfolding base64_encode.simps Let_def by (rule decode_two)
next
  case (3 a)
  show ?case unfolding base64_encode.simps Let_def by (rule decode_one)
next
  case 4
  show ?case by simp
qed

lemma data_of_data_url:
  assumes "CHR '','' \<notin> set type"
  shows "data (request (''data:'' @ type @ '';base64,'' @ base64_encode bs))
           = Some (base64_encode bs)"
proof -
  have pre: "CHR '','' \<notin> set (''data:'' @ type @ '';base64'')" using assms by simp
  have "''data:'' @ type @ '';base64,'' @ base64_encode bs
          = (''data:'' @ type @ '';base64'') @ CHR '','' # base64_encode bs"
    by simp
  then have "split CHR '','' (''data:'' @ type @ '';base64,'' @ base64_encode bs) =
     (''data:'' @ type @ '';base64'') # split CHR '','' (base64_encode bs)"
    using split_at_first [OF pre] by metis
  also have "split CHR '','' (base64_encode bs) = [base64_encode bs]"
    by (rule split_no_sep [OF base64_encode_no_comma])
  finally show ?thesis by (simp add: request_def index_def)
qed

text \<open>The request the client builds for an uploaded file whose read completed.\<close>

lemma request_of_upload:
  assumes "CHR '','' \<notin> set (fileType file)"
  shows "request (dataURL file)
           = \<lparr>model = ''gemini-3-flash-preview'', promptText = prompt,
              mimeType = ''image/jpeg'', data = Some (base64_encode (contents file)),
              responseMimeType = ''application/json''\<rparr>"
proof -
  have "CHR '','' \<notin> set (mediaType file)"
    using assms by (simp add: mediaType_def)
  then have "data (request (dataURL file)) = Some (base64_encode (contents file))"
    unfolding dataURL_def by (rule data_of_data_url)
  then show ?thesis by (simp add: request_def)
qed

lemma analyzeWaste_unfold:
  "analyzeWaste generateContent JSON_parse base64Image
     = (case generateContent (request base64Image) of
          Inl err \<Rightarrow> Inl err
        | Inr None \<Rightarrow> Inl (JsError ''No response text from AI'')
        | Inr (Some txt) \<Rightarrow>
            if txt = [] then Inl (JsError ''No response text from AI'') else JSON_parse txt)"
  by (simp add: analyzeWaste_def split: sum.splits option.splits)

lemma processAnalysis_null_states:
  "map state (processAnalysis_null s) = [Analyzing, Analyzing, Analyzing, Analyzing, Error, Error]"
  by (simp add: processAnalysis_null_def settled_def Let_def setters commit_def)

text \<open>
  C6, as the code has it. For every selected file the upload run goes from idle straight
  to analyzing, never through capturing. When the read of the file completes, the run
  goes on to result or error as the client answers, the client is called once, with the
  file's data URL; and (a media type having no comma) the client answers as the service
  does to the request whose inline data is exactly the Base64 encoding of the file's
  bytes, from which decoding gives the bytes back.
\<close>

theorem C6_upload_path:
  assumes "state s = Idle" and "files = Some (file # others)"
  shows "(\<forall>t \<in> set (handleFileUpload analyze files s). state t \<noteq> Capturing)
       \<and> map state (take 2 (handleFileUpload analyze files s)) = [Idle, Analyzing]
       \<and> (readable file \<longrightarrow>
             map state (handleFileUpload analyze files s)
               = [Idle, Analyzing, Analyzing, Analyzing, Analyzing, Analyzing]
                 @ replicate 2 (case analyze (dataURL file) of
                                  Inr r \<Rightarrow> Result | Inl e \<Rightarrow> Error)
           \<and> requests (final s (handleFileUpload analyze files s))
               = requests s @ [dataURL file])
       \<and> (readable file \<and> CHR '','' \<notin> set (fileType file) \<longrightarrow>
             analyzeWaste generateContent JSON_parse (dataURL file)
               = (case generateContent
                         \<lparr>model = ''gemini-3-flash-preview'', promptText = prompt,
                          mimeType = ''image/jpeg'',
                          data = Some (base64_encode (contents file)),
                          responseMimeType = ''application/json''\<rparr> of
                    Inl err \<Rightarrow> Inl err
                  | Inr None \<Rightarrow> Inl (JsError ''No response text from AI'')
                  | Inr (Some txt) \<Rightarrow>
                      if txt = [] then Inl (JsError ''No response text from AI'')
                      else JSON_parse txt)
           \<and> data (request (dataURL file)) = Some (base64_encode (contents file))
           \<and> map_option base64_decode (data (request (dataURL file)))
               = Some (contents file))"
proof -
  let ?url = "dataURL file"
  let ?run = "handleFileUpload analyze files s"
  have loaded: "?run = setImage (Some ?url) s # processAnalysis analyze ?url (setImage (Some ?url) s)"
    if "readable file"
    using assms(2) that by (simp add: handleFileUpload_def index_def readAsDataURL_def Let_def)
  have failed: "?run = setImage None s # processAnalysis_null (setImage None s)"
    if "\<not> readable file"
    using assms(2) that by (simp add: handleFileUpload_def index_def readAsDataURL_def Let_def)
  have states: "map state ?run
           = [Idle, Analyzing, Analyzing, Analyzing, Analyzing, Analyzing]
             @ replicate 2 (case analyze ?url of Inr r \<Rightarrow> Result | Inl e \<Rightarrow> Error)"
    if "readable file"
    using assms(1) by (simp add: loaded [OF that] processAnalysis_states setters numeral_eq_Suc)
  have states': "map state ?run
           = [Idle, Analyzing, Analyzing, Analyzing, Analyzing, Error, Error]"
    if "\<not> readable file"
    using assms(1) by (simp add: failed [OF that] processAnalysis_null_states setters)
  have "Capturing \<notin> set (map state ?run)"
  proof (cases "readable file")
    case True
    show ?thesis unfolding states [OF True] by (simp split: sum.splits)
  next
    case False
    show ?thesis unfolding states' [OF False] by simp
  qed
  then have never: "\<forall>t \<in> set ?run. state t \<noteq> Capturing"
    by force
  have first: "map state (take 2 ?run) = [Idle, Analyzing]"
  proof (cases "readable file")
    case True
    show ?thesis unfolding take_map [symmetric] states [OF True] by (simp add: numeral_eq_Suc)
  next
    case False
    show ?thesis unfolding take_map [symmetric] states' [OF False] by (simp add: numeral_eq_Suc)
  qed
  have reqs: "requests (final s ?run) = requests s @ [?url]" if "readable file"
  proof -
    have "final s ?run
          = final (setImage (Some ?url) s) (processAnalysis analyze ?url (setImage (Some ?url) s))"
      by (simp add: loaded [OF that] final_def)
    then show ?thesis by (simp add: processAnalysis_requests setters)
  qed
  have client: "analyzeWaste generateContent JSON_parse ?url
               = (case generateContent
                         \<lparr>model = ''gemini-3-flash-preview'', promptText = prompt,
                          mimeType = ''image/jpeg'',
                          data = Some (base64_encode (contents file)),
                          responseMimeType = ''application/json''\<rparr> of
                    Inl err \<Rightarrow> Inl err
                  | Inr None \<Rightarrow> Inl (JsError ''No response text from AI'')
                  | Inr (Some txt) \<Rightarrow>
                      if txt = [] then Inl (JsError ''No response text from AI'')
                      else JSON_parse txt)"
    and payload: "data (request ?url) = Some (base64_encode (contents file))"
    and decoded: "map_option base64_decode (data (request ?url)) = Some (contents file)"
    if "CHR '','' \<notin> set (fileType file)"
  proof -
    note req = request_of_upload [OF that]
    show "analyzeWaste generateContent JSON_parse ?url
               = (case generateContent
                         \<lparr>model = ''gemini-3-flash-preview'', promptText = prompt,
                          mimeType = ''image/jpeg'',
                          data = Some (base64_encode (contents file)),
                          responseMimeType = ''application/json''\<rparr> of
                    Inl err \<Rightarrow> Inl err
                  | Inr None \<Rightarrow> Inl (JsError ''No response text from AI'')
                  | Inr (Some txt) \<Rightarrow>
                      if txt = [] then Inl (JsError ''No response text from AI'')
                      else JSON_parse txt)"
      unfolding analyzeWaste_unfold req ..
    show p: "data (request ?url) = Some (base64_encode (contents file))"
      unfolding req by simp
    show "map_option base64_decode (data (request ?url)) = Some (contents file)"
      unfolding p by (simp add: base64_roundtrip)
  qed
  from never first states reqs client payload decoded show ?thesis
    by (intro conjI impI) blast+
qed

lemma encode_png: "base64_encode (contents pngFile) = ''iVBORw==''"
  by (simp add: pngFile_def sextet_def alphabet_def)

lemma url_png: "dataURL pngFile = ''data:image/png;base64,iVBORw==''"
  by (simp add: dataURL_def encode_png) (simp add: pngFile_def mediaType_def)

theorem C6_upload_path_witness:
  "state (initialApp :: json App) = Idle
   \<and> readable pngFile \<and> CHR '','' \<notin> set (fileType pngFile)
   \<and> map state (handleFileUpload (analyzeWaste expectsPngBody parseEmptyObject)
                   (Some [pngFile]) initialApp)
       = [Idle, Analyzing, Analyzing, Analyzing, Analyzing, Analyzing, Result, Result]
   \<and> requests (final initialApp
                 (handleFileUpload (analyzeWaste expectsPngBody parseEmptyObject)
                    (Some [pngFile]) initialApp))
       = [''data:image/png;base64,iVBORw=='']
   \<and> analyzeWaste expectsPngBody parseEmptyObject (dataURL pngFile) = Inr (JObject [])
   \<and> data (request (dataURL pngFile)) = Some ''iVBORw==''
   \<and> base64_decode ''iVBORw=='' = contents pngFile"
proof -
  have idle: "state (initialApp :: json App) = Idle" "requests (initialApp :: json App) = []"
    by (simp_all add: initialApp_def)
  have png: "readable pngFile" "CHR '','' \<notin> set (fileType pngFile)"
    by (simp_all add: pngFile_def)
  have two: "replicate 2 Result = [Result, Result]"
    by (simp add: numeral_eq_Suc)
  note run = C6_upload_path
    [where analyze = "analyzeWaste expectsPngBody parseEmptyObject" and others = "[]"
       and generateContent = expectsPngBody and JSON_parse = parseEmptyObject,
     OF idle(1) refl]
  note loaded = run [THEN conjunct2, THEN conjunct2, THEN conjunct1, rule_format, OF png(1)]
  note sent = run [THEN conjunct2, THEN conjunct2, THEN conjunct2, rule_format,
      OF conjI [OF png]]
  have answer: "analyzeWaste expectsPngBody parseEmptyObject (dataURL pngFile)
                  = Inr (JObject [])"
    unfolding sent [THEN conjunct1] encode_png
    by (simp add: expectsPngBody_def parseEmptyObject_def)
  have states: "map state (handleFileUpload (analyzeWaste expectsPngBody parseEmptyObject)
                   (Some [pngFile]) initialApp)
       = [Idle, Analyzing, Analyzing, Analyzing, Analyzing, Analyzing, Result, Result]"
    unfolding loaded [THEN conjunct1] answer by (simp add: two)
  have reqs: "requests (final initialApp
                 (handleFileUpload (analyzeWaste expectsPngBody parseEmptyObject)
                    (Some [pngFile]) initialApp))
       = [''data:image/png;base64,iVBORw=='']"
    unfolding loaded [THEN conjunct2] by (simp add: idle(2) url_png)
  have payload: "data (request (dataURL pngFile)) = Some ''iVBORw==''"
    using sent [THEN conjunct2, THEN conjunct1] by (simp only: encode_png)
  have "map_option base64_decode (data (request (dataURL pngFile))) = Some (contents pngFile)"
    by (rule sent [THEN conjunct2, THEN conjunct2])
  then have decoded: "base64_decode ''iVBORw=='' = contents pngFile"
    unfolding payload by (simp only: option.map option.inject)
  from idle(1) png states reqs answer payload decoded show ?thesis
    by (intro conjI)
qed

text \<open>
  A file that can no longer be read when the reader gets to it: \<^verbatim>\<open>onloadend\<close> fires with
  a null result, the image is set to null, and the run ends in the error state with
  nothing handed on, though the client would have recognised the photo.
\<close>

theorem C6_unreadable_file:
  "readAsDataURL lostFile = None
   \<and> contents lostFile = [0x89, 0x50, 0x4E, 0x47]
   \<and> map state (handleFileUpload recognisesPlastic (Some [lostFile]) initialApp)
       = [Idle, Analyzing, Analyzing, Analyzing, Analyzing, Error, Error]
   \<and> image' (final initialApp (handleFileUpload recognisesPlastic (Some [lostFile]) initialApp))
       = None
   \<and> requests (final initialApp (handleFileUpload recognisesPlastic (Some [lostFile]) initialApp))
       = []"
  by (simp add: lostFile_def pngFile_def readAsDataURL_def handleFileUpload_def index_def initialApp_def
      processAnalysis_null_def settled_def Let_def setters commit_def final_def)

subsection \<open>Classification client\<close>

text \<open>The shape test accepts the well-formed analysis.\<close>

lemma plasticJson_isWasteAnalysis: "isWasteAnalysis plasticJson"
  by (simp add: plasticJson_def isWasteAnalysis_def isConfidences_def hasString_def
      hasNumber_def hasBoolean_def)

text \<open>
  The service answers with the text \<^verbatim>\<open>{}\<close>: it parses, \<open>analyzeWaste\<close> returns the
  empty object and does not fail, though the value has none of the fields of a
  \<^verbatim>\<open>WasteAnalysis\<close>.
\<close>

theorem C2_unchecked_payload:
  "analyzeWaste answersEmptyObject parseEmptyObject ''data:image/jpeg;base64,/9j/''
     = Inr (JObject [])
   \<and> \<not> isWasteAnalysis (JObject [])"
  by (simp add: analyzeWaste_def answersEmptyObject_def parseEmptyObject_def
      isWasteAnalysis_def hasString_def)

text \<open>
  C2, as the code has it. \<open>analyzeWaste\<close> fails exactly when the service call rejects,
  or the response has no text or an empty one, or \<^verbatim>\<open>JSON.parse\<close> throws on the text, and
  what it throws is then what the call rejected with, the error
  \<^verbatim>\<open>No response text from AI\<close>, or what \<^verbatim>\<open>JSON.parse\<close> threw; in every other case it
  returns the value \<^verbatim>\<open>JSON.parse\<close> gave, unchecked against the shape of a
  \<^verbatim>\<open>WasteAnalysis\<close>.
\<close>

theorem C2_analyzeWaste_failures:
  "(isl (analyzeWaste generateContent JSON_parse base64Image) \<longleftrightarrow>
      isl (generateContent (request base64Image))
      \<or> generateContent (request base64Image) = Inr None
      \<or> generateContent (request base64Image) = Inr (Some [])
      \<or> (\<exists>txt. generateContent (request base64Image) = Inr (Some txt) \<and> isl (JSON_parse txt)))
   \<and> (analyzeWaste generateContent JSON_parse base64Image = Inl err \<longleftrightarrow>
      generateContent (request base64Image) = Inl err
      \<or> ((generateContent (request base64Image) = Inr None
           \<or> generateContent (request base64Image) = Inr (Some []))
          \<and> err = JsError ''No response text from AI'')
      \<or> (\<exists>txt. generateContent (request base64Image) = Inr (Some txt) \<and> txt \<noteq> []
             \<and> JSON_parse txt = Inl err))
   \<and> (analyzeWaste generateContent JSON_parse base64Image = Inr v \<longleftrightarrow>
      (\<exists>txt. generateContent (request base64Image) = Inr (Some txt) \<and> txt \<noteq> []
             \<and> JSON_parse txt = Inr v))"
proof (intro conjI)
  show "isl (analyzeWaste generateContent JSON_parse base64Image) \<longleftrightarrow>
      isl (generateContent (request base64Image))
      \<or> generateContent (request base64Image) = Inr None
      \<or> generateContent (request base64Image) = Inr (Some [])
      \<or> (\<exists>txt. generateContent (request base64Image) = Inr (Some txt) \<and> isl (JSON_parse txt))"
    by (auto simp add: analyzeWaste_def split: sum.splits option.splits)
  show "analyzeWaste generateContent JSON_parse base64Image = Inl err \<longleftrightarrow>
      generateContent (request base64Image) = Inl err
      \<or> ((generateContent (request base64Image) = Inr None
           \<or> generateContent (request base64Image) = Inr (Some []))
          \<and> err = JsError ''No response text from AI'')
      \<or> (\<exists>txt. generateContent (request base64Image) = Inr (Some txt) \<and> txt \<noteq> []
             \<and> JSON_parse txt = Inl err)"
    by (auto simp add: analyzeWaste_def split: sum.splits option.splits)
  show "analyzeWaste generateContent JSON_parse base64Image = Inr v \<longleftrightarrow>
      (\<exists>txt. generateContent (request base64Image) = Inr (Some txt) \<and> txt \<noteq> []
             \<and> JSON_parse txt = Inr v)"
    by (auto simp add: analyzeWaste_def split: sum.splits option.splits)
qed

theorem C2_analyzeWaste_failures_witness:
  "answersEmptyObject (request ''data:image/jpeg;base64,/9j/'') = Inr (Some ''{}'')
   \<and> parseEmptyObject ''{}'' = Inr (JObject [])
   \<and> analyzeWaste answersEmptyObject parseEmptyObject ''data:image/jpeg;base64,/9j/''
       = Inr (JObject [])
   \<and> serviceDown (request ''data:image/jpeg;base64,/9j/'') = Inl (Rejected ''Failed to fetch'')
   \<and> analyzeWaste serviceDown parseEmptyObject ''data:image/jpeg;base64,/9j/''
       = Inl (Rejected ''Failed to fetch'')
   \<and> answersNothing (request ''data:image/jpeg;base64,/9j/'') = Inr None
   \<and> analyzeWaste answersNothing parseEmptyObject ''data:image/jpeg;base64,/9j/''
       = Inl (JsError ''No response text from AI'')
   \<and> answersBrace (request ''data:image/jpeg;base64,/9j/'') = Inr (Some ''{'')
   \<and> parseEmptyObject ''{'' = Inl SyntaxError
   \<and> analyzeWaste answersBrace parseEmptyObject ''data:image/jpeg;base64,/9j/''
       = Inl SyntaxError"
  using C2_analyzeWaste_failures
    [where generateContent = answersEmptyObject and JSON_parse = parseEmptyObject
       and base64Image = "''data:image/jpeg;base64,/9j/''" and v = "JObject []"
       and err = SyntaxError]
    C2_analyzeWaste_failures
    [where generateContent = serviceDown and JSON_parse = parseEmptyObject
       and base64Image = "''data:image/jpeg;base64,/9j/''" and v = "JObject []"
       and err = "Rejected ''Failed to fetch''"]
    C2_analyzeWaste_failures
    [where generateContent = answersNothing and JSON_parse = parseEmptyObject
       and base64Image = "''data:image/jpeg;base64,/9j/''" and v = "JObject []"
       and err = "JsError ''No response text from AI''"]
    C2_analyzeWaste_failures
    [where generateContent = answersBrace and JSON_parse = parseEmptyObject
       and base64Image = "''data:image/jpeg;base64,/9j/''" and v = "JObject []"
       and err = SyntaxError]
  by (simp add: answersEmptyObject_def parseEmptyObject_def serviceDown_def
      answersNothing_def answersBrace_def)

subsection \<open>Presentation\<close>

lemma lower_main: "toLowerCase ''Plastic'' = ''plastic''"
  by code_simp

lemma lower_keys:
  "map toLowerCase [''glass'', ''plastic'', ''paper'', ''cardboard'', ''other'']
     = [''glass'', ''plastic'', ''paper'', ''cardboard'', ''other'']"
  by code_simp

lemma round_scores: "map Math_round [10, 70, 10, 5, 5] = [10, 70, 10, 5, 5]"
  by (simp add: Math_round_def)

text \<open>
  C9. The result card of the analysis with confidences glass 10, plastic 70, paper 10,
  cardboard 5, other 5 and main material Plastic: the primary detection reads Plastic,
  the five rows show 10, 70, 10, 5 and 5 (each the confidence rounded to the nearest
  integer), and the plastic row alone has the highlighted bar and label.
\<close>

theorem C9_result_rendering:
  "primaryDetection (renderResult plasticBottle) = ''Plastic''
   \<and> map label (bars (renderResult plasticBottle))
       = [''glass'', ''plastic'', ''paper'', ''cardboard'', ''other'']
   \<and> map percent (bars (renderResult plasticBottle)) = [10, 70, 10, 5, 5]
   \<and> map (\<lambda>b. fillClass b = highlighted) (bars (renderResult plasticBottle))
       = [False, True, False, False, False]
   \<and> map (\<lambda>b. labelClass b = ''text-emerald-600'') (bars (renderResult plasticBottle))
       = [False, True, False, False, False]"
  using lower_main lower_keys round_scores
  by (simp add: plasticBottle_def renderResult_def renderBar_def highlighted_def)

end
